theory Spec2Isabelle
  imports Complex_Main
begin

section \<open>Leverage-lens price chart: viewport, liquidation estimate, PnL grid, recentering\<close>

text \<open>
  The development embeds the numeric core of \<^verbatim>\<open>PriceChart.tsx\<close> and of the helpers it
  imports (\<^verbatim>\<open>viewportFor\<close>, \<^verbatim>\<open>isolatedLiq\<close>, \<^verbatim>\<open>pnlTicks\<close>).

  Numbers. A JavaScript \<^verbatim>\<open>number\<close> that is finite is modelled as a \<^typ>\<open>real\<close> and
  \<^verbatim>\<open>+\<close>, \<^verbatim>\<open>-\<close>, \<^verbatim>\<open>*\<close>, \<^verbatim>\<open>Math.max\<close>, \<^verbatim>\<open>Math.min\<close>, \<^verbatim>\<open>Math.abs\<close> are the exact
  operations: rounding and overflow of binary64 are not part of the model. Every input is
  a finite number. A division whose divisor can be zero is the one place where the source
  leaves the finite numbers without any rounding being involved, so its result is a
  \<open>jsnum\<close>: the quotient, an infinity or \<^verbatim>\<open>NaN\<close>. Divisions by \<^verbatim>\<open>Math.max(1, leverage)\<close>
  and by the literal \<^verbatim>\<open>1e4\<close> have a divisor that is never zero and stay in \<^typ>\<open>real\<close>.
\<close>

subsection \<open>Numbers\<close>

datatype jsnum = Num real | PosInf | NegInf | NaN

text \<open>
  \<^verbatim>\<open>a / b\<close>. The three divisors of the source that can vanish (\<^verbatim>\<open>1 - mmr\<close>,
  \<^verbatim>\<open>1 + mmr\<close>, \<^verbatim>\<open>yMax - yMin\<close>) vanish as positive zero, so the sign of the infinity is the
  sign of the dividend, and \<^verbatim>\<open>0 / 0\<close> is \<^verbatim>\<open>NaN\<close>.
\<close>

definition jsdiv :: "real \<Rightarrow> real \<Rightarrow> jsnum" where
  "jsdiv a b =
     (if b \<noteq> 0 then Num (a / b)
      else if 0 < a then PosInf
      else if a < 0 then NegInf
      else NaN)"

text \<open>Truthiness of a number, as \<^verbatim>\<open>||\<close> and \<^verbatim>\<open>? :\<close> test it: zero and \<^verbatim>\<open>NaN\<close> are falsy.\<close>

fun truthy :: "jsnum \<Rightarrow> bool" where
  "truthy (Num v) = (v \<noteq> 0)"
| "truthy PosInf = True"
| "truthy NegInf = True"
| "truthy NaN = False"

subsection \<open>The helpers: \<^verbatim>\<open>viewportFor\<close>, \<^verbatim>\<open>isolatedLiq\<close>, \<^verbatim>\<open>pnlTicks\<close>\<close>

datatype Side = Long | Short

record Viewport =
  yMin :: real
  yMax :: real

text \<open>
  The default values of the optional fields \<^verbatim>\<open>pnlSpan\<close>, \<^verbatim>\<open>minBandBps\<close> and \<^verbatim>\<open>span\<close>.
  A caller that omits a field passes the default; \<^verbatim>\<open>PriceChart\<close> passes all of them.
\<close>

definition pnlSpan_default :: real where
  "pnlSpan_default = 1.2"

definition minBandBps_default :: real where
  "minBandBps_default = 4"

definition span_default :: real where
  "span_default = 1.0"

definition viewportFor :: "real \<Rightarrow> real \<Rightarrow> real \<Rightarrow> real \<Rightarrow> Viewport" where
  "viewportFor anchor leverage pnlSpan minBandBps =
     (let halfSpanByL = anchor * (pnlSpan / max 1 leverage);
          floor = anchor * (minBandBps / 10000);
          half = max halfSpanByL floor
      in \<lparr>yMin = anchor - half, yMax = anchor + half\<rparr>)"

definition isolatedLiq :: "real \<Rightarrow> real \<Rightarrow> Side \<Rightarrow> real \<Rightarrow> jsnum" where
  "isolatedLiq entry leverage side mmr =
     (let L = max 1 leverage
      in if side = Long then jsdiv (entry * (1 - 1 / L)) (1 - mmr)
         else jsdiv (entry * (1 + 1 / L)) (1 + mmr))"

record PnlTick =
  pnlPct :: real
  price :: real

definition pnlTicks :: "real \<Rightarrow> real \<Rightarrow> real \<Rightarrow> PnlTick list" where
  "pnlTicks anchor leverage span' =
     (let levels = map (\<lambda>v. v * span') [-1, -0.5, -0.25, 0, 0.25, 0.5, 1];
          L = max 1 leverage
      in map (\<lambda>pnl. \<lparr>pnlPct = pnl * 100, price = anchor * (1 + pnl / L)\<rparr>) levels)"

subsection \<open>The formulas as the specification words them\<close>

text \<open>
  Half-span: the larger of the leverage-scaled span
  \<open>anchor * (pnlSpan / max(1, leverage))\<close> and the floor \<open>anchor * (minBandBps / 10000)\<close>.
\<close>

definition spec_half :: "real \<Rightarrow> real \<Rightarrow> real \<Rightarrow> real \<Rightarrow> real" where
  "spec_half anchor leverage pnlSpan minBandBps =
     max (anchor * (pnlSpan / max 1 leverage)) (anchor * (minBandBps / 10000))"

text \<open>
  Liquidation estimate: \<open>entry * (1 - 1/L) / (1 - mmr)\<close> for a long and
  \<open>entry * (1 + 1/L) / (1 + mmr)\<close> for a short, with \<open>L\<close> the leverage clamped to a
  minimum of 1.
\<close>

fun spec_liq :: "real \<Rightarrow> real \<Rightarrow> Side \<Rightarrow> real \<Rightarrow> jsnum" where
  "spec_liq entry leverage Long mmr = jsdiv (entry * (1 - 1 / max 1 leverage)) (1 - mmr)"
| "spec_liq entry leverage Short mmr = jsdiv (entry * (1 + 1 / max 1 leverage)) (1 + mmr)"

subsection \<open>The component \<^verbatim>\<open>PriceChart\<close>\<close>

text \<open>
  What one render reads from its props, its context and its queries is a parameter of the
  model: \<^verbatim>\<open>isPostTrade\<close>, \<^verbatim>\<open>entryPrice\<close>, \<^verbatim>\<open>currentPrice\<close>, \<^verbatim>\<open>displayLeverageRaw\<close>,
  \<^verbatim>\<open>side\<close> and the position's \<^verbatim>\<open>liquidationPrice\<close> (\<open>None\<close> for \<^verbatim>\<open>undefined\<close>).
\<close>

record Props =
  isPostTrade :: bool
  entryPrice :: real
  currentPrice :: real
  displayLeverageRaw :: real
  side :: Side
  liquidationPrice :: "jsnum option"

text \<open>
  The state of the component that the chart's geometry depends on is \<^verbatim>\<open>centerAnchor\<close>
  (\<open>None\<close> for \<^verbatim>\<open>null\<close>). The field \<open>recenters\<close> is not in the source: it counts the
  calls of \<^verbatim>\<open>setCenterAnchor\<close> made by the hysteresis effect.
\<close>

record ChartState =
  centerAnchor :: "real option"
  recenters :: nat

definition chartHeight :: real where
  "chartHeight = 200"

definition DEFAULT_MMR :: real where
  "DEFAULT_MMR = 0.005"

definition displayLeverage :: "Props \<Rightarrow> real" where
  "displayLeverage p = max 1 (min (displayLeverageRaw p) 500)"

text \<open>\<^verbatim>\<open>isPostTrade ? (centerAnchor ?? (entryPrice || currentPrice)) : currentPrice\<close>\<close>

definition anchor :: "Props \<Rightarrow> ChartState \<Rightarrow> real" where
  "anchor p st =
     (if isPostTrade p
      then (case centerAnchor st of
              Some a \<Rightarrow> a
            | None \<Rightarrow> (if entryPrice p \<noteq> 0 then entryPrice p else currentPrice p))
      else currentPrice p)"

definition viewport :: "Props \<Rightarrow> ChartState \<Rightarrow> Viewport" where
  "viewport p st =
     (let pnlSpan = 1.2; minBandBps = 4
      in viewportFor (anchor p st) (displayLeverage p) pnlSpan minBandBps)"

definition range_y :: "Props \<Rightarrow> ChartState \<Rightarrow> real" where
  "range_y p st = yMax (viewport p st) - yMin (viewport p st)"

text \<open>
  \<^verbatim>\<open>calculateLinePosition\<close> closes over \<^verbatim>\<open>yMin\<close> and \<^verbatim>\<open>range = yMax - yMin\<close> of the render;
  here it takes the viewport. The plot area is 160 pixels high, so an infinite price ratio
  gives the opposite infinity and \<^verbatim>\<open>NaN\<close> stays \<^verbatim>\<open>NaN\<close>.
\<close>

definition calculateLinePosition :: "Viewport \<Rightarrow> real \<Rightarrow> jsnum" where
  "calculateLinePosition vp price' =
     (let topOffset = 20;
          bottomOffset = 20;
          plotArea = chartHeight - topOffset - bottomOffset
      in case jsdiv (price' - yMin vp) (yMax vp - yMin vp) of
           Num priceRatio \<Rightarrow> Num (topOffset + plotArea * (1 - priceRatio))
         | PosInf \<Rightarrow> NegInf
         | NegInf \<Rightarrow> PosInf
         | NaN \<Rightarrow> NaN)"

text \<open>\<^verbatim>\<open>displayLeverage\<close> is at least 1, so this division has a divisor that is not zero.\<close>

definition gatingOk :: "Props \<Rightarrow> bool" where
  "gatingOk p = (1 / displayLeverage p \<ge> DEFAULT_MMR)"

text \<open>\<open>None\<close> is \<^verbatim>\<open>null\<close>: the branch that does not call \<^verbatim>\<open>isolatedLiq\<close>.\<close>

definition projectedLiq :: "Props \<Rightarrow> jsnum option" where
  "projectedLiq p =
     (if \<not> isPostTrade p \<and> gatingOk p
      then Some (isolatedLiq (currentPrice p) (displayLeverage p) (side p) DEFAULT_MMR)
      else None)"

text \<open>\<^verbatim>\<open>isPostTrade ? liquidationPrice : projectedLiq || undefined\<close>; \<open>None\<close> is \<^verbatim>\<open>undefined\<close>.\<close>

definition liqToShow :: "Props \<Rightarrow> jsnum option" where
  "liqToShow p =
     (if isPostTrade p then liquidationPrice p
      else (case projectedLiq p of
              Some v \<Rightarrow> (if truthy v then Some v else None)
            | None \<Rightarrow> None))"

subsection \<open>The two effects and a price tick\<close>

text \<open>The effect with dependencies \<^verbatim>\<open>[isPostTrade, entryPrice]\<close>: it seeds or clears the anchor.\<close>

definition seedEffect :: "Props \<Rightarrow> ChartState \<Rightarrow> ChartState" where
  "seedEffect p st =
     (if isPostTrade p \<and> entryPrice p > 0
      then st\<lparr>centerAnchor := Some (entryPrice p)\<rparr>
      else st\<lparr>centerAnchor := None\<rparr>)"

text \<open>
  The hysteresis effect, with dependencies \<^verbatim>\<open>[currentPrice, isPostTrade, range, anchor]\<close>.
  Its result depends on nothing but its dependencies, so running it at every render
  leaves the same state as running it when a dependency has changed.
\<close>

definition recenterEffect :: "Props \<Rightarrow> ChartState \<Rightarrow> ChartState" where
  "recenterEffect p st =
     (if \<not> isPostTrade p then st
      else let half = range_y p st / 2
           in if half \<le> 0 then st
              else let delta = \<bar>currentPrice p - anchor p st\<bar>
                   in if delta \<ge> 0.85 * half
                      then st\<lparr>centerAnchor := Some (currentPrice p),
                              recenters := recenters st + 1\<rparr>
                      else st)"

text \<open>
  A state update makes React render again and run the effect again, until the effect
  leaves the state as it is. The loop ends: after a recenter the anchor is the current
  price, the distance is zero, and the effect does nothing.
\<close>

function settle :: "Props \<Rightarrow> ChartState \<Rightarrow> ChartState" where
  "settle p st =
     (if recenterEffect p st = st then st else settle p (recenterEffect p st))"
  by pat_completeness auto
termination
proof (relation "measure (\<lambda>(p, st). if recenterEffect p st = st then 0 else 1)")
  show "wf (measure (\<lambda>(p, st). if recenterEffect p st = st then 0 else (1::nat)))"
    by simp
next
  fix p :: Props and st :: ChartState
  assume fired: "recenterEffect p st \<noteq> st"
  let ?st' = "recenterEffect p st"
  have post: "isPostTrade p"
    using fired by (rule_tac ccontr) (simp add: recenterEffect_def)
  have "?st' = st\<lparr>centerAnchor := Some (currentPrice p), recenters := recenters st + 1\<rparr>"
    using fired post by (simp add: recenterEffect_def Let_def split: if_splits)
  then have "anchor p ?st' = currentPrice p"
    using post by (simp add: anchor_def)
  then have d: "\<bar>currentPrice p - anchor p ?st'\<bar> = 0"
    by simp
  have "recenterEffect p ?st' = ?st'"
  proof (cases "range_y p ?st' / 2 \<le> 0")
    case True
    then show ?thesis by (simp add: recenterEffect_def [of p ?st'] Let_def)
  next
    case False
    then have "0 < 0.85 * (range_y p ?st' / 2)" by simp
    then have "\<not> (\<bar>currentPrice p - anchor p ?st'\<bar> \<ge> 0.85 * (range_y p ?st' / 2))"
      using d by linarith
    then show ?thesis by (simp add: recenterEffect_def [of p ?st'] Let_def)
  qed
  then show "((p, ?st'), (p, st))
      \<in> measure (\<lambda>(p, st). if recenterEffect p st = st then 0 else (1::nat))"
    using fired by simp
qed

text \<open>A price tick: the render sees the new price, and the effects run until the state is stable.\<close>

definition tick :: "Props \<Rightarrow> ChartState \<Rightarrow> real \<Rightarrow> ChartState" where
  "tick p st x = settle (p\<lparr>currentPrice := x\<rparr>) st"

definition ticks :: "Props \<Rightarrow> ChartState \<Rightarrow> real list \<Rightarrow> ChartState" where
  "ticks p st xs = foldl (tick p) st xs"

section \<open>Properties\<close>

subsection \<open>Helper facts\<close>

declare settle.simps [simp del]

lemma viewportFor_yMin:
  "yMin (viewportFor a leverage pnlSpan minBandBps) =
     a - spec_half a leverage pnlSpan minBandBps"
  by (simp add: viewportFor_def spec_half_def Let_def)

lemma viewportFor_yMax:
  "yMax (viewportFor a leverage pnlSpan minBandBps) =
     a + spec_half a leverage pnlSpan minBandBps"
  by (simp add: viewportFor_def spec_half_def Let_def)

lemma isolatedLiq_long:
  "mmr \<noteq> 1 \<Longrightarrow>
   isolatedLiq entry leverage Long mmr = Num (entry * (1 - 1 / max 1 leverage) / (1 - mmr))"
  by (simp add: isolatedLiq_def jsdiv_def Let_def)

lemma isolatedLiq_short:
  "mmr \<noteq> - 1 \<Longrightarrow>
   isolatedLiq entry leverage Short mmr = Num (entry * (1 + 1 / max 1 leverage) / (1 + mmr))"
proof -
  assume "mmr \<noteq> - 1"
  then have "1 + mmr \<noteq> 0" by linarith
  then show ?thesis by (simp add: isolatedLiq_def jsdiv_def Let_def)
qed

lemma spec_half_pos:
  assumes "0 < a" "0 < pnlSpan"
  shows "0 < spec_half a l pnlSpan minBandBps"
proof -
  have "0 < max 1 l" by simp
  then have "0 < a * (pnlSpan / max 1 l)"
    using assms by simp
  then show ?thesis
    unfolding spec_half_def by (simp add: less_max_iff_disj)
qed

lemma spec_half_antimono:
  assumes "0 < a" "0 \<le> pnlSpan" "l1 \<le> l2"
  shows "spec_half a l2 pnlSpan minBandBps \<le> spec_half a l1 pnlSpan minBandBps"
proof -
  have m: "0 < max 1 l1" "max 1 l1 \<le> max 1 l2" using assms(3) by auto
  have "pnlSpan / max 1 l2 \<le> pnlSpan / max 1 l1"
    using m assms(2) by (intro divide_left_mono) auto
  then have "a * (pnlSpan / max 1 l2) \<le> a * (pnlSpan / max 1 l1)"
    using assms(1) by (intro mult_left_mono) auto
  then show ?thesis
    unfolding spec_half_def by (rule max.mono) simp
qed

lemma pnlTicks_span1:
  "pnlTicks a l 1 =
     map (\<lambda>pnl. \<lparr>pnlPct = pnl * 100, price = a * (1 + pnl / max 1 l)\<rparr>)
       [- 1, - 0.5, - 0.25, 0, 0.25, 0.5, 1]"
  by (simp add: pnlTicks_def Let_def)

lemma pnlTicks_prices:
  "map price (pnlTicks a l 1) =
     map (\<lambda>pnl. a * (1 + pnl / max 1 l)) [- 1, - 0.5, - 0.25, 0, 0.25, 0.5, 1]"
  by (simp add: pnlTicks_span1)

lemma pnlTicks_pcts:
  "map pnlPct (pnlTicks a l 1) = [- 100, - 50, - 25, 0, 25, 50, 100]"
  by (simp add: pnlTicks_span1)

lemma price_step:
  fixes a L x y :: real
  assumes "0 < a" "0 < L" "x < y"
  shows "a * (1 + x / L) < a * (1 + y / L)"
proof -
  have "x / L < y / L"
    using assms(3,2) by (rule divide_strict_right_mono)
  then show ?thesis using assms(1) by simp
qed

lemma offset_antimono:
  fixes u w :: real
  shows "u < w \<Longrightarrow> 20 + 160 * (1 - w) < 20 + 160 * (1 - u)"
  by simp

lemma seedEffect_tracked:
  "isPostTrade p \<Longrightarrow> 0 < entryPrice p \<Longrightarrow>
   centerAnchor (seedEffect p st) = Some (entryPrice p)"
  by (simp add: seedEffect_def)

lemma anchor_tracked:
  "isPostTrade p \<Longrightarrow> centerAnchor st = Some a \<Longrightarrow> anchor (p\<lparr>currentPrice := x\<rparr>) st = a"
  by (simp add: anchor_def)

lemma range_y_tracked:
  "isPostTrade p \<Longrightarrow> centerAnchor st = Some a \<Longrightarrow>
   range_y (p\<lparr>currentPrice := x\<rparr>) st = range_y p st"
  by (simp add: range_y_def viewport_def anchor_def displayLeverage_def)

lemma recenterEffect_inside:
  assumes "isPostTrade p" "centerAnchor st = Some a"
    and "\<bar>x - a\<bar> < 0.85 * (range_y p st / 2)"
  shows "recenterEffect (p\<lparr>currentPrice := x\<rparr>) st = st"
  using assms
  by (simp add: recenterEffect_def [of "p\<lparr>currentPrice := x\<rparr>"] Let_def
      anchor_tracked [of p st a] range_y_tracked [of p st a])

lemma recenterEffect_reach:
  assumes "isPostTrade p" "centerAnchor st = Some a"
    and "0 < range_y p st / 2"
    and "\<bar>y - a\<bar> \<ge> 0.85 * (range_y p st / 2)"
  shows "recenterEffect (p\<lparr>currentPrice := y\<rparr>) st
           = st\<lparr>centerAnchor := Some y, recenters := recenters st + 1\<rparr>"
  using assms
  by (simp add: recenterEffect_def [of "p\<lparr>currentPrice := y\<rparr>"] Let_def
      anchor_tracked [of p st a] range_y_tracked [of p st a])

lemma recenterEffect_idem:
  "recenterEffect p (recenterEffect p st) = recenterEffect p st"
proof (cases "recenterEffect p st = st")
  case True
  then show ?thesis by simp
next
  case False
  let ?st' = "recenterEffect p st"
  have post: "isPostTrade p"
    using False by (rule_tac ccontr) (simp add: recenterEffect_def)
  have "?st' = st\<lparr>centerAnchor := Some (currentPrice p), recenters := recenters st + 1\<rparr>"
    using False post by (simp add: recenterEffect_def Let_def split: if_splits)
  then have "anchor p ?st' = currentPrice p"
    using post by (simp add: anchor_def)
  then have d: "\<bar>currentPrice p - anchor p ?st'\<bar> = 0"
    by simp
  show ?thesis
  proof (cases "range_y p ?st' / 2 \<le> 0")
    case True
    then show ?thesis by (simp add: recenterEffect_def [of p ?st'] Let_def)
  next
    case False
    then have "0 < 0.85 * (range_y p ?st' / 2)" by simp
    then have "\<not> (\<bar>currentPrice p - anchor p ?st'\<bar> \<ge> 0.85 * (range_y p ?st' / 2))"
      using d by linarith
    then show ?thesis by (simp add: recenterEffect_def [of p ?st'] Let_def)
  qed
qed

lemma settle_stable:
  "recenterEffect p st = st \<Longrightarrow> settle p st = st"
  by (subst settle.simps) simp

lemma settle_is_one_run:
  "settle p st = recenterEffect p st"
proof (cases "recenterEffect p st = st")
  case True
  then show ?thesis by (simp add: settle_stable)
next
  case False
  then have "settle p st = settle p (recenterEffect p st)"
    by (subst settle.simps) simp
  also have "\<dots> = recenterEffect p st"
    by (rule settle_stable) (rule recenterEffect_idem)
  finally show ?thesis .
qed

lemma ticks_inside:
  assumes "isPostTrade p" "centerAnchor st = Some a"
    and "\<forall>x \<in> set xs. \<bar>x - a\<bar> < 0.85 * (range_y p st / 2)"
  shows "ticks p st xs = st"
  using assms(3)
proof (induction xs)
  case Nil
  then show ?case by (simp add: ticks_def)
next
  case (Cons x xs)
  then have "tick p st x = st"
    using assms(1,2) by (simp add: tick_def settle_is_one_run recenterEffect_inside [of p st a])
  moreover have "ticks p st xs = st"
    using Cons by simp
  ultimately show ?case
    by (simp add: ticks_def)
qed

subsection \<open>Viewport\<close>

text \<open>
  C3. For every anchor, leverage and configuration, \<open>viewportFor\<close> returns exactly
  \<open>[anchor - half, anchor + half]\<close>, where \<open>half\<close> is the larger of
  \<open>anchor * (pnlSpan / max(1, leverage))\<close> and \<open>anchor * (minBandBps / 10000)\<close>; at
  \<open>anchor = 100\<close>, \<open>leverage = 10\<close>, \<open>pnlSpan = 1.2\<close>, \<open>minBandBps = 4\<close> the half-span
  is 12 and the viewport is \<open>{yMin: 88, yMax: 112}\<close>.
\<close>

theorem viewportFor_exact:
  "viewportFor a leverage pnlSpan minBandBps =
     \<lparr>yMin = a - spec_half a leverage pnlSpan minBandBps,
      yMax = a + spec_half a leverage pnlSpan minBandBps\<rparr>
   \<and> spec_half 100 10 1.2 4 = 12
   \<and> viewportFor 100 10 1.2 4 = \<lparr>yMin = 88, yMax = 112\<rparr>"
  by (simp add: viewportFor_def spec_half_def Let_def)

text \<open>
  C2, as the code has it. For every anchor \<open>> 0\<close> and leverage \<open>\<ge> 1\<close>, with the default
  configuration, the viewport has \<open>yMin < yMax\<close> and \<open>yMax > 0\<close>; \<open>yMin\<close> is
  strictly positive exactly when the leverage is above \<open>pnlSpan = 1.2\<close>. Both bounds are
  real numbers. At a leverage of at most 1.2 the lower bound is zero or negative: the
  half-span \<open>1.2 * anchor / leverage\<close> is then at least the anchor.
\<close>

theorem viewportFor_default_bounds:
  assumes "0 < a" "1 \<le> l"
  shows "yMin (viewportFor a l pnlSpan_default minBandBps_default)
           < yMax (viewportFor a l pnlSpan_default minBandBps_default)
       \<and> 0 < yMax (viewportFor a l pnlSpan_default minBandBps_default)
       \<and> (0 < yMin (viewportFor a l pnlSpan_default minBandBps_default) \<longleftrightarrow> 1.2 < l)"
proof -
  let ?h = "spec_half a l pnlSpan_default minBandBps_default"
  have h: "?h = max (a * (1.2 / l)) (a * (4 / 10000))"
    using assms(2) by (simp add: spec_half_def pnlSpan_default_def minBandBps_default_def max_def)
  have pos: "0 < ?h"
    using assms(1) by (simp add: spec_half_pos pnlSpan_default_def)
  have "?h < a \<longleftrightarrow> 1.2 < l"
  proof -
    have "a * (1.2 / l) < a \<longleftrightarrow> 1.2 < l"
      using assms by (simp add: field_simps)
    moreover have "a * (4 / 10000) < a"
      using assms(1) by simp
    ultimately show ?thesis
      unfolding h by simp
  qed
  then show ?thesis
    using pos assms(1) by (simp add: viewportFor_yMin viewportFor_yMax)
qed

theorem viewportFor_default_bounds_witness:
  "(0::real) < 100 \<and> (1::real) \<le> 10
   \<and> yMin (viewportFor 100 10 pnlSpan_default minBandBps_default)
        < yMax (viewportFor 100 10 pnlSpan_default minBandBps_default)
   \<and> 0 < yMax (viewportFor 100 10 pnlSpan_default minBandBps_default)
   \<and> 0 < yMin (viewportFor 100 10 pnlSpan_default minBandBps_default)"
  using viewportFor_default_bounds [of 100 10] by simp

text \<open>
  C2 as stated fails: at \<open>anchor = 100\<close>, \<open>leverage = 1\<close> and the default configuration
  the half-span is 120, the viewport is \<open>{yMin: -20, yMax: 220}\<close>, and \<open>yMin\<close> is not
  positive.
\<close>

theorem viewportFor_positive_counterexample:
  "(0::real) < 100 \<and> (1::real) \<le> 1
   \<and> viewportFor 100 1 pnlSpan_default minBandBps_default = \<lparr>yMin = - 20, yMax = 220\<rparr>
   \<and> \<not> 0 < yMin (viewportFor 100 1 pnlSpan_default minBandBps_default)"
  by (simp add: viewportFor_def pnlSpan_default_def minBandBps_default_def Let_def)

text \<open>
  C7. For every anchor \<open>> 0\<close> and leverage \<open>\<ge> 1\<close>, and every configuration with a
  positive \<open>pnlSpan\<close> (the default 1.2 is one; \<open>minBandBps\<close> is arbitrary),
  \<open>viewportFor\<close> returns \<open>yMin < anchor < yMax\<close>, and with the anchor and the
  configuration fixed \<open>yMax - anchor\<close> does not increase when the leverage increases.
\<close>

theorem viewportFor_brackets_anchor:
  assumes "0 < a" "1 \<le> l1" "l1 \<le> l2" "0 < pnlSpan"
  shows "yMin (viewportFor a l1 pnlSpan minBandBps) < a
       \<and> a < yMax (viewportFor a l1 pnlSpan minBandBps)
       \<and> yMax (viewportFor a l2 pnlSpan minBandBps) - a
           \<le> yMax (viewportFor a l1 pnlSpan minBandBps) - a"
proof -
  have "0 < spec_half a l1 pnlSpan minBandBps"
    using assms by (simp add: spec_half_pos)
  moreover have "spec_half a l2 pnlSpan minBandBps \<le> spec_half a l1 pnlSpan minBandBps"
    using assms by (simp add: spec_half_antimono)
  ultimately show ?thesis
    by (simp add: viewportFor_yMin viewportFor_yMax)
qed

theorem viewportFor_brackets_anchor_witness:
  "(0::real) < 100 \<and> (1::real) \<le> 10 \<and> (10::real) \<le> 20 \<and> (0::real) < 1.2
   \<and> yMin (viewportFor 100 10 1.2 4) < 100
   \<and> 100 < yMax (viewportFor 100 10 1.2 4)
   \<and> yMax (viewportFor 100 20 1.2 4) - 100 \<le> yMax (viewportFor 100 10 1.2 4) - 100"
  using viewportFor_brackets_anchor [of 100 10 20 "1.2" 4] by simp

subsection \<open>Liquidation estimate\<close>

text \<open>
  C4. For every entry, leverage, side and maintenance-margin ratio, \<open>isolatedLiq\<close>
  returns \<open>entry * (1 - 1/L) / (1 - mmr)\<close> for a long and
  \<open>entry * (1 + 1/L) / (1 + mmr)\<close> for a short, with \<open>L = max(1, leverage)\<close>: it is the
  specification's formula, a finite quotient whenever the divisor is not zero. At
  \<open>entry = 100\<close>, \<open>leverage = 10\<close>, long, \<open>mmr = 0.005\<close> the result is
  \<open>18000 / 199\<close>, which is 90.45 to two decimals.
\<close>

theorem isolatedLiq_formula:
  "isolatedLiq entry leverage s mmr = spec_liq entry leverage s mmr
   \<and> (mmr \<noteq> 1 \<longrightarrow>
        isolatedLiq entry leverage Long mmr
          = Num (entry * (1 - 1 / max 1 leverage) / (1 - mmr)))
   \<and> (mmr \<noteq> - 1 \<longrightarrow>
        isolatedLiq entry leverage Short mmr
          = Num (entry * (1 + 1 / max 1 leverage) / (1 + mmr)))
   \<and> isolatedLiq 100 10 Long 0.005 = Num (18000 / 199)
   \<and> \<bar>18000 / 199 - 90.45\<bar> < (0.005 :: real)"
proof -
  have "isolatedLiq entry leverage s mmr = spec_liq entry leverage s mmr"
    by (cases s) (simp_all add: isolatedLiq_def Let_def)
  moreover have "isolatedLiq 100 10 Long 0.005 = Num (18000 / 199)"
    by (simp add: isolatedLiq_def jsdiv_def Let_def)
  moreover have "\<bar>18000 / 199 - 90.45\<bar> < (0.005 :: real)"
    by simp
  ultimately show ?thesis
    using isolatedLiq_long [of mmr entry leverage] isolatedLiq_short [of mmr entry leverage]
    by blast
qed

theorem isolatedLiq_formula_witness:
  "(0.005 :: real) \<noteq> 1
   \<and> isolatedLiq 100 10 Long 0.005 = Num (100 * (1 - 1 / max 1 10) / (1 - 0.005))
   \<and> (0.005 :: real) \<noteq> - 1
   \<and> isolatedLiq 100 10 Short 0.005 = Num (100 * (1 + 1 / max 1 10) / (1 + 0.005))"
  using isolatedLiq_formula [of 100 10 Long "0.005"] by (simp add: jsdiv_def)

text \<open>
  C1, as the code has it. For every entry \<open>> 0\<close>, every \<open>mmr\<close> with \<open>-1 < mmr < 1\<close> and
  leverages \<open>1 \<le> l1 < l2\<close>: for a long the estimate at \<open>l2\<close> is strictly above the
  estimate at \<open>l1\<close> (it rises towards the entry), and for a short it is strictly below
  (it falls towards the entry).
\<close>

theorem isolatedLiq_monotone:
  assumes "0 < entry" "1 \<le> l1" "l1 < l2" "- 1 < mmr" "mmr < 1"
  shows "(\<exists>v1 v2. isolatedLiq entry l1 Long mmr = Num v1
                \<and> isolatedLiq entry l2 Long mmr = Num v2 \<and> v1 < v2)
       \<and> (\<exists>v1 v2. isolatedLiq entry l1 Short mmr = Num v1
                \<and> isolatedLiq entry l2 Short mmr = Num v2 \<and> v2 < v1)"
proof -
  have L: "max 1 l1 = l1" "max 1 l2 = l2" using assms by auto
  have inv: "1 / l2 < 1 / l1"
    using assms by (simp add: frac_less2)
  have "entry * (1 - 1 / l1) < entry * (1 - 1 / l2)"
    using inv assms(1) by simp
  then have long: "entry * (1 - 1 / l1) / (1 - mmr) < entry * (1 - 1 / l2) / (1 - mmr)"
    using assms(5) by (simp add: divide_strict_right_mono)
  have "entry * (1 + 1 / l2) < entry * (1 + 1 / l1)"
    using inv assms(1) by simp
  then have short: "entry * (1 + 1 / l2) / (1 + mmr) < entry * (1 + 1 / l1) / (1 + mmr)"
    using assms(4) by (simp add: divide_strict_right_mono)
  have "mmr \<noteq> 1" "mmr \<noteq> - 1" using assms by auto
  then show ?thesis
    using long short L by (simp add: isolatedLiq_long isolatedLiq_short)
qed

theorem isolatedLiq_monotone_witness:
  "(0::real) < 100 \<and> (1::real) \<le> 2 \<and> (2::real) < 10 \<and> (- 1 :: real) < 0.005 \<and> (0.005::real) < 1
   \<and> (\<exists>v1 v2. isolatedLiq 100 2 Long 0.005 = Num v1
                \<and> isolatedLiq 100 10 Long 0.005 = Num v2 \<and> v1 < v2)
   \<and> (\<exists>v1 v2. isolatedLiq 100 2 Short 0.005 = Num v1
                \<and> isolatedLiq 100 10 Short 0.005 = Num v2 \<and> v2 < v1)"
  using isolatedLiq_monotone [of 100 2 10 "0.005"] by simp

text \<open>
  C1 as stated fails: at \<open>entry = 100\<close>, \<open>mmr = 0.005\<close> the long estimate goes from
  \<open>10000/199\<close> (about 50.25) at leverage 2 up to \<open>18000/199\<close> (about 90.45) at leverage
  10, and the short estimate goes from \<open>30000/201\<close> (about 149.25) down to
  \<open>22000/201\<close> (about 109.45).
\<close>

theorem isolatedLiq_direction_counterexample:
  "(0::real) < 100 \<and> (2::real) < 10
   \<and> isolatedLiq 100 2 Long 0.005 = Num (10000 / 199)
   \<and> isolatedLiq 100 10 Long 0.005 = Num (18000 / 199)
   \<and> \<not> (18000 / 199 :: real) < 10000 / 199
   \<and> isolatedLiq 100 2 Short 0.005 = Num (30000 / 201)
   \<and> isolatedLiq 100 10 Short 0.005 = Num (22000 / 201)
   \<and> \<not> (30000 / 201 :: real) < 22000 / 201"
  by (simp add: isolatedLiq_def jsdiv_def Let_def)

text \<open>
  C10. For every entry \<open>> 0\<close>, every \<open>mmr\<close> with \<open>0 \<le> mmr < 1\<close> and every leverage that
  passes the gate \<open>1 / max(1, leverage) \<ge> mmr\<close>, the estimate is a finite number that is
  at most the entry for a long and at least the entry for a short.
\<close>

theorem isolatedLiq_loss_side:
  assumes "0 < entry" "0 \<le> mmr" "mmr < 1" "mmr \<le> 1 / max 1 l"
  shows "(\<exists>v. isolatedLiq entry l Long mmr = Num v \<and> v \<le> entry)
       \<and> (\<exists>v. isolatedLiq entry l Short mmr = Num v \<and> entry \<le> v)"
proof -
  let ?L = "max 1 l"
  have "1 - 1 / ?L \<le> 1 - mmr" using assms(4) by simp
  then have "entry * (1 - 1 / ?L) \<le> entry * (1 - mmr)"
    using assms(1) by simp
  then have long: "entry * (1 - 1 / ?L) / (1 - mmr) \<le> entry"
    using assms(3) by (simp add: pos_divide_le_eq)
  have "1 + mmr \<le> 1 + 1 / ?L" using assms(4) by simp
  then have "entry * (1 + mmr) \<le> entry * (1 + 1 / ?L)"
    using assms(1) by simp
  then have short: "entry \<le> entry * (1 + 1 / ?L) / (1 + mmr)"
    using assms(2) by (simp add: pos_le_divide_eq)
  have "mmr \<noteq> 1" "mmr \<noteq> - 1" using assms by auto
  then show ?thesis
    using long short by (simp add: isolatedLiq_long isolatedLiq_short)
qed

theorem isolatedLiq_loss_side_witness:
  "(0::real) < 100 \<and> (0::real) \<le> 0.005 \<and> (0.005::real) < 1 \<and> (0.005::real) \<le> 1 / max 1 10
   \<and> (\<exists>v. isolatedLiq 100 10 Long 0.005 = Num v \<and> v \<le> 100)
   \<and> (\<exists>v. isolatedLiq 100 10 Short 0.005 = Num v \<and> 100 \<le> v)"
  using isolatedLiq_loss_side [of 100 "0.005" 10] by simp

subsection \<open>PnL grid\<close>

text \<open>
  C5. For every anchor \<open>> 0\<close> and leverage \<open>\<ge> 1\<close>, \<open>pnlTicks\<close> with \<open>span = 1\<close> returns
  exactly 7 grid lines; their \<open>pnlPct\<close> are \<open>-100, -50, -25, 0, 25, 50, 100\<close> in this
  (ascending) order; their prices are strictly increasing; the prices are symmetric
  around the anchor (the distances above the anchor are the distances below it, read
  from the other end); and the middle line has \<open>pnlPct = 0\<close> and the anchor as its price.
\<close>

theorem pnlTicks_grid:
  assumes "0 < a" "1 \<le> l"
  shows "length (pnlTicks a l 1) = 7
       \<and> map pnlPct (pnlTicks a l 1) = [- 100, - 50, - 25, 0, 25, 50, 100]
       \<and> sorted_wrt (<) (map pnlPct (pnlTicks a l 1))
       \<and> sorted_wrt (<) (map price (pnlTicks a l 1))
       \<and> map (\<lambda>t. price t - a) (pnlTicks a l 1) = rev (map (\<lambda>t. a - price t) (pnlTicks a l 1))
       \<and> pnlPct (pnlTicks a l 1 ! 3) = 0
       \<and> price (pnlTicks a l 1 ! 3) = a"
proof -
  let ?f = "\<lambda>pnl. a * (1 + pnl / max 1 l)"
  let ?levels = "[- 1, - 0.5, - 0.25, 0, 0.25, 0.5, 1] :: real list"
  have len: "length (pnlTicks a l 1) = 7"
    by (simp add: pnlTicks_span1)
  have "sorted_wrt (<) ?levels"
    by simp
  then have "sorted_wrt (\<lambda>x y. ?f x < ?f y) ?levels"
  proof (rule sorted_wrt_mono_rel [rotated])
    fix x y :: real
    assume "x < y"
    moreover have "0 < max 1 l" by simp
    ultimately show "?f x < ?f y"
      using assms(1) by (simp only: price_step)
  qed
  then have "sorted_wrt (<) (map ?f ?levels)"
    by (simp only: sorted_wrt_map)
  then have sorted: "sorted_wrt (<) (map price (pnlTicks a l 1))"
    by (simp only: pnlTicks_prices)
  have pct_sorted: "sorted_wrt (<) (map pnlPct (pnlTicks a l 1))"
    by (simp add: pnlTicks_pcts)
  have sym: "map (\<lambda>t. price t - a) (pnlTicks a l 1) = rev (map (\<lambda>t. a - price t) (pnlTicks a l 1))"
    by (simp add: pnlTicks_span1 algebra_simps)
  have mid: "pnlPct (pnlTicks a l 1 ! 3) = 0 \<and> price (pnlTicks a l 1 ! 3) = a"
    by (simp add: pnlTicks_span1)
  show ?thesis
    using len pnlTicks_pcts [of a l] pct_sorted sorted sym mid by blast
qed

theorem pnlTicks_grid_witness:
  "(0::real) < 100 \<and> (1::real) \<le> 10
   \<and> length (pnlTicks 100 10 1) = 7
   \<and> map pnlPct (pnlTicks 100 10 1) = [- 100, - 50, - 25, 0, 25, 50, 100]
   \<and> sorted_wrt (<) (map price (pnlTicks 100 10 1))
   \<and> map price (pnlTicks 100 10 1) = [90, 95, 97.5, 100, 102.5, 105, 110]
   \<and> price (pnlTicks 100 10 1 ! 3) = 100"
  using pnlTicks_grid [of 100 10] by (simp add: pnlTicks_span1)

subsection \<open>Liquidation gating at the call site\<close>

text \<open>
  C8. Before a trade, whenever \<open>1 / displayLeverage < DEFAULT_MMR\<close> the gate is closed,
  \<open>projectedLiq\<close> is \<^verbatim>\<open>null\<close> (the branch that does not call \<open>isolatedLiq\<close>) and
  \<open>liqToShow\<close> is \<^verbatim>\<open>undefined\<close>: neither zero nor the position's liquidation price.
\<close>

theorem gating_failure_absent:
  assumes "\<not> isPostTrade p" "1 / displayLeverage p < DEFAULT_MMR"
  shows "\<not> gatingOk p \<and> projectedLiq p = None \<and> liqToShow p = None"
  using assms by (simp add: gatingOk_def projectedLiq_def liqToShow_def)

theorem gating_failure_absent_witness:
  "\<not> isPostTrade \<lparr>isPostTrade = False, entryPrice = 0, currentPrice = 100,
        displayLeverageRaw = 300, side = Long, liquidationPrice = Some (Num 77)\<rparr>
   \<and> 1 / displayLeverage \<lparr>isPostTrade = False, entryPrice = 0, currentPrice = 100,
        displayLeverageRaw = 300, side = Long, liquidationPrice = Some (Num 77)\<rparr> < DEFAULT_MMR
   \<and> projectedLiq \<lparr>isPostTrade = False, entryPrice = 0, currentPrice = 100,
        displayLeverageRaw = 300, side = Long, liquidationPrice = Some (Num 77)\<rparr> = None
   \<and> liqToShow \<lparr>isPostTrade = False, entryPrice = 0, currentPrice = 100,
        displayLeverageRaw = 300, side = Long, liquidationPrice = Some (Num 77)\<rparr> = None"
  using gating_failure_absent [of "\<lparr>isPostTrade = False, entryPrice = 0, currentPrice = 100,
        displayLeverageRaw = 300, side = Long, liquidationPrice = Some (Num 77)\<rparr>"]
  by (simp add: displayLeverage_def DEFAULT_MMR_def)

subsection \<open>Projection to pixels\<close>

text \<open>
  C9. For every viewport with \<open>yMin < yMax\<close>, \<open>calculateLinePosition\<close> maps \<open>yMin\<close> to
  \<open>top + plotArea\<close> and \<open>yMax\<close> to \<open>top\<close>, where \<open>top = 20\<close> and
  \<open>plotArea = chartHeight - 20 - 20\<close>; and a higher price has a strictly smaller pixel
  offset (price increases upward, pixels increase downward).
\<close>

theorem calculateLinePosition_ends:
  assumes "yMin vp < yMax vp"
  shows "calculateLinePosition vp (yMin vp) = Num (20 + (chartHeight - 20 - 20))
       \<and> calculateLinePosition vp (yMax vp) = Num 20
       \<and> (\<forall>x y. x < y \<longrightarrow>
            (\<exists>ox oy. calculateLinePosition vp x = Num ox
                   \<and> calculateLinePosition vp y = Num oy \<and> oy < ox))"
proof -
  let ?r = "yMax vp - yMin vp"
  have r: "0 < ?r" using assms by simp
  then have nz: "?r \<noteq> 0" by simp
  have pos: "calculateLinePosition vp x = Num (20 + 160 * (1 - (x - yMin vp) / ?r))" for x
    using nz by (simp add: calculateLinePosition_def jsdiv_def chartHeight_def Let_def)
  have lo: "calculateLinePosition vp (yMin vp) = Num (20 + (chartHeight - 20 - 20))"
    by (simp add: pos chartHeight_def)
  have hi: "calculateLinePosition vp (yMax vp) = Num 20"
    using nz by (simp add: pos)
  have inv: "\<exists>ox oy. calculateLinePosition vp x = Num ox
                 \<and> calculateLinePosition vp y = Num oy \<and> oy < ox"
    if "x < y" for x y
  proof -
    have "(x - yMin vp) / ?r < (y - yMin vp) / ?r"
      using that r by (simp add: divide_strict_right_mono)
    then have "20 + 160 * (1 - (y - yMin vp) / ?r) < 20 + 160 * (1 - (x - yMin vp) / ?r)"
      by (rule offset_antimono)
    then show ?thesis
      using pos [of x] pos [of y] by blast
  qed
  show ?thesis
    using lo hi inv by blast
qed

theorem calculateLinePosition_ends_witness:
  "yMin (viewportFor 100 10 1.2 4) < yMax (viewportFor 100 10 1.2 4)
   \<and> calculateLinePosition (viewportFor 100 10 1.2 4) 88 = Num 180
   \<and> calculateLinePosition (viewportFor 100 10 1.2 4) 112 = Num 20
   \<and> (90::real) < 110
   \<and> (\<exists>ox oy. calculateLinePosition (viewportFor 100 10 1.2 4) 90 = Num ox
             \<and> calculateLinePosition (viewportFor 100 10 1.2 4) 110 = Num oy \<and> oy < ox)"
proof -
  have v: "viewportFor 100 10 1.2 4 = \<lparr>yMin = 88, yMax = 112\<rparr>"
    by (simp add: viewportFor_def Let_def)
  have h: "yMin (viewportFor 100 10 1.2 4) < yMax (viewportFor 100 10 1.2 4)"
    unfolding v by simp
  have o: "(90::real) < 110" by simp
  show ?thesis
    using h o calculateLinePosition_ends [OF h] unfolding v by (simp add: chartHeight_def)
qed

subsection \<open>Recentering\<close>

text \<open>
  C6. After a trade, with the anchor tracked at \<open>a\<close> and a positive half-range
  \<open>half = range / 2\<close>: over every sequence of price ticks that stay strictly within
  \<open>0.85 * half\<close> of the anchor the state does not change, so the anchor stays \<open>a\<close> after
  every prefix of the sequence; the first tick \<open>y\<close> with \<open>|y - a| \<ge> 0.85 * half\<close> makes
  the hysteresis effect call \<^verbatim>\<open>setCenterAnchor\<close> exactly once (the render that follows
  runs the effect again, and it does nothing), and the anchor is then \<open>y\<close>.
\<close>

theorem recenter_hysteresis:
  assumes "isPostTrade p" "centerAnchor st = Some a"
    and "0 < range_y p st / 2"
    and "\<forall>x \<in> set xs. \<bar>x - a\<bar> < 0.85 * (range_y p st / 2)"
    and "\<bar>y - a\<bar> \<ge> 0.85 * (range_y p st / 2)"
  shows "(\<forall>k. ticks p st (take k xs) = st
            \<and> anchor (p\<lparr>currentPrice := y\<rparr>) (ticks p st (take k xs)) = a)
       \<and> ticks p st (xs @ [y]) = st\<lparr>centerAnchor := Some y, recenters := recenters st + 1\<rparr>
       \<and> anchor (p\<lparr>currentPrice := y\<rparr>) (ticks p st (xs @ [y])) = y"
proof -
  have pre: "ticks p st (take k xs) = st" for k
  proof (rule ticks_inside [OF assms(1,2)])
    show "\<forall>x \<in> set (take k xs). \<bar>x - a\<bar> < 0.85 * (range_y p st / 2)"
      using assms(4) by (meson in_set_takeD)
  qed
  have all: "ticks p st xs = st"
    using ticks_inside [OF assms(1,2,4)] .
  have "ticks p st (xs @ [y]) = tick p (ticks p st xs) y"
    by (simp add: ticks_def)
  also have "\<dots> = recenterEffect (p\<lparr>currentPrice := y\<rparr>) st"
    by (simp add: all tick_def settle_is_one_run)
  also have "\<dots> = st\<lparr>centerAnchor := Some y, recenters := recenters st + 1\<rparr>"
    using assms(1,2,3,5) by (rule recenterEffect_reach)
  finally have jump:
    "ticks p st (xs @ [y]) = st\<lparr>centerAnchor := Some y, recenters := recenters st + 1\<rparr>" .
  have "anchor (p\<lparr>currentPrice := y\<rparr>) (ticks p st (xs @ [y])) = y"
    using assms(1) by (simp add: jump anchor_def)
  moreover have "anchor (p\<lparr>currentPrice := y\<rparr>) (ticks p st (take k xs)) = a" for k
    using assms(1,2) by (simp add: pre anchor_tracked)
  ultimately show ?thesis
    using pre jump by simp
qed

theorem recenter_hysteresis_witness:
  "isPostTrade \<lparr>isPostTrade = True, entryPrice = 100, currentPrice = 100,
        displayLeverageRaw = 10, side = Long, liquidationPrice = None\<rparr>
   \<and> centerAnchor \<lparr>centerAnchor = Some 100, recenters = 0\<rparr> = Some 100
   \<and> range_y \<lparr>isPostTrade = True, entryPrice = 100, currentPrice = 100,
        displayLeverageRaw = 10, side = Long, liquidationPrice = None\<rparr>
        \<lparr>centerAnchor = Some 100, recenters = 0\<rparr> / 2 = 12
   \<and> \<bar>110 - 100\<bar> < 0.85 * (12 :: real)
   \<and> \<bar>111 - 100\<bar> \<ge> 0.85 * (12 :: real)
   \<and> ticks \<lparr>isPostTrade = True, entryPrice = 100, currentPrice = 100,
        displayLeverageRaw = 10, side = Long, liquidationPrice = None\<rparr>
        \<lparr>centerAnchor = Some 100, recenters = 0\<rparr> [101, 105, 95, 110]
       = \<lparr>centerAnchor = Some 100, recenters = 0\<rparr>
   \<and> ticks \<lparr>isPostTrade = True, entryPrice = 100, currentPrice = 100,
        displayLeverageRaw = 10, side = Long, liquidationPrice = None\<rparr>
        \<lparr>centerAnchor = Some 100, recenters = 0\<rparr> [101, 105, 95, 110, 111]
       = \<lparr>centerAnchor = Some 111, recenters = 1\<rparr>"
proof -
  let ?p = "\<lparr>isPostTrade = True, entryPrice = 100, currentPrice = 100,
        displayLeverageRaw = 10, side = Long, liquidationPrice = None\<rparr>"
  let ?st = "\<lparr>centerAnchor = Some 100, recenters = 0\<rparr>"
  have r: "range_y ?p ?st / 2 = 12"
    by (simp add: range_y_def viewport_def viewportFor_def anchor_def displayLeverage_def Let_def)
  have h1: "isPostTrade ?p" by simp
  have h2: "centerAnchor ?st = Some 100" by simp
  have h3: "0 < range_y ?p ?st / 2" unfolding r by simp
  have h4: "\<forall>x \<in> set [101, 105, 95, 110]. \<bar>x - 100\<bar> < 0.85 * (range_y ?p ?st / 2)"
    unfolding r by simp
  have h5: "\<bar>111 - 100\<bar> \<ge> 0.85 * (range_y ?p ?st / 2)"
    unfolding r by simp
  from recenter_hysteresis [OF h1 h2 h3 h4 h5]
  have "(\<forall>k. ticks ?p ?st (take k [101, 105, 95, 110]) = ?st)
        \<and> ticks ?p ?st ([101, 105, 95, 110] @ [111]) = \<lparr>centerAnchor = Some 111, recenters = 1\<rparr>"
    by simp
  then have "ticks ?p ?st (take 4 [101, 105, 95, 110]) = ?st
        \<and> ticks ?p ?st [101, 105, 95, 110, 111] = \<lparr>centerAnchor = Some 111, recenters = 1\<rparr>"
    by (metis append_Cons append_Nil)
  then show ?thesis
    using r by simp
qed

end
